theory Spec2Isabelle
  imports Complex_Main
begin

section \<open>Text\<close>

text \<open>
  A Python \<open>str\<close> is a sequence of Unicode code points; \<open>len\<close> counts code points.
  A code point is an integer (the value of \<open>ord\<close>), a text is a list of them.  ASCII literals are written
  through \<open>ustr\<close>, other code points as numerals.
\<close>

type_synonym uchar = int
type_synonym ustring = "uchar list"

definition ustr :: "string \<Rightarrow> ustring" where
  "ustr s = map of_char s"

text \<open>
  The characters for which \<open>str.isspace\<close> holds; \<open>str.strip\<close> and the class \<open>\s\<close> of
  \<open>re\<close> (on \<open>str\<close> patterns) both use this set.
\<close>

definition is_space :: "uchar \<Rightarrow> bool" where
  "is_space c \<longleftrightarrow>
     (9 \<le> c \<and> c \<le> 13) \<or> (28 \<le> c \<and> c \<le> 32) \<or> c = 0x85 \<or> c = 0xA0 \<or> c = 0x1680 \<or>
     (0x2000 \<le> c \<and> c \<le> 0x200A) \<or> c = 0x2028 \<or> c = 0x2029 \<or> c = 0x202F \<or>
     c = 0x205F \<or> c = 0x3000"

text \<open>
  The rest of the Unicode character database belongs to the Python runtime, not to the
  repository: which code points are decimal digits (\<open>\d\<close>), which are alphanumeric
  (\<open>\w\<close> is alphanumeric or underscore), and \<open>str.lower\<close>.  The program is modelled
  over any such tables; \<open>ascii_db\<close> is the instance that is exact on ASCII text and on
  the box-drawing and arrow symbols the program names.
\<close>

record unicode_db =
  isdecimal :: "uchar \<Rightarrow> bool"
  isalnum :: "uchar \<Rightarrow> bool"
  lower :: "ustring \<Rightarrow> ustring"

definition ascii_lower :: "uchar \<Rightarrow> uchar" where
  "ascii_lower c = (if 65 \<le> c \<and> c \<le> 90 then c + 32 else c)"

definition ascii_db :: unicode_db where
  "ascii_db = \<lparr> isdecimal = (\<lambda>c. 48 \<le> c \<and> c \<le> 57),
                isalnum = (\<lambda>c. (48 \<le> c \<and> c \<le> 57) \<or> (65 \<le> c \<and> c \<le> 90) \<or> (97 \<le> c \<and> c \<le> 122)),
                lower = map ascii_lower \<rparr>"

definition is_word :: "unicode_db \<Rightarrow> uchar \<Rightarrow> bool" where
  "is_word U c \<longleftrightarrow> isalnum U c \<or> c = 95"

text \<open>\<open>s.strip()\<close>: leading and trailing whitespace removed.\<close>

definition lstrip :: "ustring \<Rightarrow> ustring" where
  "lstrip t = dropWhile is_space t"

definition rstrip :: "ustring \<Rightarrow> ustring" where
  "rstrip t = rev (dropWhile is_space (rev t))"

definition strip :: "ustring \<Rightarrow> ustring" where
  "strip t = rstrip (lstrip t)"

text \<open>\<open>needle in hay\<close> on strings: \<open>needle\<close> occurs as a contiguous substring.\<close>

fun starts_with :: "ustring \<Rightarrow> ustring \<Rightarrow> bool" where
  "starts_with [] hay = True"
| "starts_with (n # ns) [] = False"
| "starts_with (n # ns) (h # hs) = (n = h \<and> starts_with ns hs)"

fun contains :: "ustring \<Rightarrow> ustring \<Rightarrow> bool" where
  "contains needle [] = (needle = [])"
| "contains needle (h # hs) = (starts_with needle (h # hs) \<or> contains needle hs)"

text \<open>\<open>s.split('\n')\<close> and \<open>'\n'.join(xs)\<close>.\<close>

fun split_nl_acc :: "ustring \<Rightarrow> ustring \<Rightarrow> ustring list" where
  "split_nl_acc acc [] = [rev acc]"
| "split_nl_acc acc (c # cs) =
     (if c = 10 then rev acc # split_nl_acc [] cs else split_nl_acc (c # acc) cs)"

definition split_nl :: "ustring \<Rightarrow> ustring list" where
  "split_nl t = split_nl_acc [] t"

fun join_nl :: "ustring list \<Rightarrow> ustring" where
  "join_nl [] = []"
| "join_nl [x] = x"
| "join_nl (x # y # ys) = x @ [10] @ join_nl (y # ys)"

section \<open>Regular expressions\<close>

text \<open>
  The fragment of Python's \<open>re\<close> that the program's patterns use, with the semantics of
  \<open>re\<close>: a backtracking matcher.  A match attempt at a position tries the alternatives in
  priority order (the left branch of \<open>|\<close> first, a greedy repetition with one more
  character first, a lazy repetition with the rest of the pattern first) and the first
  success is the match.
\<close>

datatype regex =
    Eps                      \<comment> \<open>the empty pattern\<close>
  | Cls "uchar \<Rightarrow> bool"       \<comment> \<open>one character of a class\<close>
  | Star "uchar \<Rightarrow> bool"      \<comment> \<open>\<open>[..]*\<close>, greedy\<close>
  | Plus "uchar \<Rightarrow> bool"      \<comment> \<open>\<open>[..]+\<close>, greedy\<close>
  | StarLazy "uchar \<Rightarrow> bool"  \<comment> \<open>\<open>[..]*?\<close>\<close>
  | PlusLazy "uchar \<Rightarrow> bool"  \<comment> \<open>\<open>[..]+?\<close>\<close>
  | Seq regex regex
  | Alt regex regex
  | Opt regex                \<comment> \<open>\<open>(?:..)?\<close>, greedy\<close>
  | Group nat regex          \<comment> \<open>capturing group with its number\<close>
  | Bol                      \<comment> \<open>\<open>^\<close> without \<open>re.MULTILINE\<close>\<close>
  | BolM                     \<comment> \<open>\<open>^\<close> with \<open>re.MULTILINE\<close>\<close>
  | Eol                      \<comment> \<open>\<open>$\<close> without \<open>re.MULTILINE\<close>\<close>
  | EolM                     \<comment> \<open>\<open>$\<close> with \<open>re.MULTILINE\<close>\<close>
  | WordB "uchar \<Rightarrow> bool"     \<comment> \<open>\<open>\b\<close>, for the given word characters\<close>

text \<open>
  The matcher works on the stack of what is still to be matched: a pattern, or the end of
  a group that was entered when \<open>m\<close> characters had been consumed.  Its state is the
  character before the current position (\<open>None\<close> at the start of the text), the text that
  remains, the number of characters the attempt has consumed, and the spans
  \<open>(group, start, end)\<close> captured so far.
\<close>

datatype frame = Match regex | Close nat nat

type_synonym spans = "(nat \<times> nat \<times> nat) list"
type_synonym mstate = "uchar option \<times> ustring \<times> nat \<times> spans"

definition at_word_boundary :: "(uchar \<Rightarrow> bool) \<Rightarrow> uchar option \<Rightarrow> ustring \<Rightarrow> bool" where
  "at_word_boundary w prev rest \<longleftrightarrow>
     (case prev of None \<Rightarrow> False | Some c \<Rightarrow> w c) \<noteq> (case rest of [] \<Rightarrow> False | c # _ \<Rightarrow> w c)"

fun frame_weight :: "frame \<Rightarrow> nat" where
  "frame_weight (Match r) = 2 * size r + 1"
| "frame_weight (Close g m) = 1"

definition stack_weight :: "frame list \<Rightarrow> nat" where
  "stack_weight k = sum_list (map frame_weight k)"

function run :: "frame list \<Rightarrow> mstate \<Rightarrow> mstate option" where
  "run [] s = Some s"
| "run (Close g m # k) (prev, rest, n, caps) = run k (prev, rest, n, (g, m, n) # caps)"
| "run (Match Eps # k) s = run k s"
| "run (Match (Cls p) # k) (prev, [], n, caps) = None"
| "run (Match (Cls p) # k) (prev, c # cs, n, caps) =
     (if p c then run k (Some c, cs, Suc n, caps) else None)"
| "run (Match (Star p) # k) (prev, [], n, caps) = run k (prev, [], n, caps)"
| "run (Match (Star p) # k) (prev, c # cs, n, caps) =
     (if p c
      then (case run (Match (Star p) # k) (Some c, cs, Suc n, caps) of
              Some r \<Rightarrow> Some r
            | None \<Rightarrow> run k (prev, c # cs, n, caps))
      else run k (prev, c # cs, n, caps))"
| "run (Match (Plus p) # k) (prev, [], n, caps) = None"
| "run (Match (Plus p) # k) (prev, c # cs, n, caps) =
     (if p c then run (Match (Star p) # k) (Some c, cs, Suc n, caps) else None)"
| "run (Match (StarLazy p) # k) (prev, [], n, caps) = run k (prev, [], n, caps)"
| "run (Match (StarLazy p) # k) (prev, c # cs, n, caps) =
     (case run k (prev, c # cs, n, caps) of
        Some r \<Rightarrow> Some r
      | None \<Rightarrow> if p c then run (Match (StarLazy p) # k) (Some c, cs, Suc n, caps) else None)"
| "run (Match (PlusLazy p) # k) (prev, [], n, caps) = None"
| "run (Match (PlusLazy p) # k) (prev, c # cs, n, caps) =
     (if p c then run (Match (StarLazy p) # k) (Some c, cs, Suc n, caps) else None)"
| "run (Match (Seq a b) # k) s = run (Match a # Match b # k) s"
| "run (Match (Alt a b) # k) s =
     (case run (Match a # k) s of Some r \<Rightarrow> Some r | None \<Rightarrow> run (Match b # k) s)"
| "run (Match (Opt a) # k) s =
     (case run (Match a # k) s of Some r \<Rightarrow> Some r | None \<Rightarrow> run k s)"
| "run (Match (Group g a) # k) (prev, rest, n, caps) =
     run (Match a # Close g n # k) (prev, rest, n, caps)"
| "run (Match Bol # k) (prev, rest, n, caps) =
     (if prev = None then run k (prev, rest, n, caps) else None)"
| "run (Match BolM # k) (prev, rest, n, caps) =
     (if prev = None \<or> prev = Some 10 then run k (prev, rest, n, caps) else None)"
| "run (Match Eol # k) (prev, rest, n, caps) =
     (if rest = [] \<or> rest = [10] then run k (prev, rest, n, caps) else None)"
| "run (Match EolM # k) (prev, rest, n, caps) =
     (if rest = [] \<or> hd rest = 10 then run k (prev, rest, n, caps) else None)"
| "run (Match (WordB w) # k) (prev, rest, n, caps) =
     (if at_word_boundary w prev rest then run k (prev, rest, n, caps) else None)"
  by pat_completeness auto
termination
  by (relation "measures [\<lambda>(k, s). length (fst (snd s)), \<lambda>(k, s). stack_weight k]")
     (auto simp: stack_weight_def)

text \<open>One attempt of pattern \<open>r\<close> at a position.\<close>

definition attempt :: "regex \<Rightarrow> uchar option \<Rightarrow> ustring \<Rightarrow> mstate option" where
  "attempt r prev t = run [Match r] (prev, t, 0, [])"

text \<open>A literal string is the sequence of its characters.\<close>

fun Lit :: "ustring \<Rightarrow> regex" where
  "Lit [] = Eps"
| "Lit (c # cs) = Seq (Cls (\<lambda>x. x = c)) (Lit cs)"

text \<open>
  A match object: the text of each group, cut out of the text the attempt started on.
  \<open>match.group(g)\<close> is the text of group \<open>g\<close>.
\<close>

type_synonym match = "(nat \<times> ustring) list"

definition match_of :: "ustring \<Rightarrow> spans \<Rightarrow> match" where
  "match_of t caps = map (\<lambda>(g, b, e). (g, take (e - b) (drop b t))) caps"

definition group :: "match \<Rightarrow> nat \<Rightarrow> ustring" where
  "group m g = (case map_of m g of None \<Rightarrow> [] | Some t \<Rightarrow> t)"

text \<open>\<open>pattern.match\<close>: one attempt, at the start of the text.\<close>

definition re_match :: "regex \<Rightarrow> ustring \<Rightarrow> match option" where
  "re_match r t =
     (case attempt r None t of None \<Rightarrow> None | Some (q, rest', n, caps) \<Rightarrow> Some (match_of t caps))"

text \<open>
  \<open>pattern.search\<close>: the first position, from the left, at which an attempt succeeds.
\<close>

fun re_search_from :: "regex \<Rightarrow> uchar option \<Rightarrow> ustring \<Rightarrow> bool" where
  "re_search_from r prev [] = (attempt r prev [] \<noteq> None)"
| "re_search_from r prev (c # cs) =
     (attempt r prev (c # cs) \<noteq> None \<or> re_search_from r (Some c) cs)"

definition re_search :: "regex \<Rightarrow> ustring \<Rightarrow> bool" where
  "re_search r t = re_search_from r None t"

text \<open>
  \<open>pattern.sub('', text)\<close>: the text is scanned from the left; where an attempt succeeds the
  matched characters are dropped and the scan goes on behind the match; where none succeeds the
  character is kept.  Every pattern the program scans with consumes at least one character
  (shown below for each of them), so the branch for a match that consumed nothing is never
  taken; there the character is kept and the scan moves on.
\<close>

fun re_sub_empty :: "regex \<Rightarrow> uchar option \<Rightarrow> ustring \<Rightarrow> ustring" where
  "re_sub_empty r prev [] = []"
| "re_sub_empty r prev (c # cs) =
     (case attempt r prev (c # cs) of
        None \<Rightarrow> c # re_sub_empty r (Some c) cs
      | Some (q, rest', n, caps) \<Rightarrow>
          if length rest' < length (c # cs) then re_sub_empty r q rest'
          else c # re_sub_empty r (Some c) cs)"

text \<open>
  \<open>pattern.finditer(text)\<close> (and \<open>findall\<close>, which lists the same matches): the
  non-overlapping matches from left to right.  After a match the scan goes on behind it.
\<close>

fun re_finditer :: "regex \<Rightarrow> uchar option \<Rightarrow> ustring \<Rightarrow> match list" where
  "re_finditer r prev [] =
     (case attempt r prev [] of None \<Rightarrow> [] | Some (q, rest', n, caps) \<Rightarrow> [match_of [] caps])"
| "re_finditer r prev (c # cs) =
     (case attempt r prev (c # cs) of
        None \<Rightarrow> re_finditer r (Some c) cs
      | Some (q, rest', n, caps) \<Rightarrow>
          if length rest' < length (c # cs)
          then match_of (c # cs) caps # re_finditer r q rest'
          else match_of (c # cs) caps # re_finditer r (Some c) cs)"

section \<open>Terminal sanitizer\<close>

text \<open>
  \<open>ANSI_ESCAPE\<close> of \<open>session_manager.py\<close> (written with \<open>re.VERBOSE\<close>):
  ESC followed by one of \<open>[@-Z\\-_]\<close> or by a CSI sequence \<open>\[[0-?]*[ -/]*[@-~]\<close>; or a bare
  \<open>[\<close> followed by \<open>[0-9;]+[a-zA-Z]\<close> or \<open>[0-9;]+m\<close>.
\<close>

definition in_range :: "uchar \<Rightarrow> uchar \<Rightarrow> uchar \<Rightarrow> bool" where
  "in_range lo hi c \<longleftrightarrow> lo \<le> c \<and> c \<le> hi"

definition ESC :: uchar where "ESC = 0x1B"
definition LBRACKET :: uchar where "LBRACKET = 0x5B"

definition esc_sequence :: regex where
  "esc_sequence =
     Seq (Cls (\<lambda>c. c = ESC))
       (Alt (Cls (\<lambda>c. in_range 0x40 0x5A c \<or> in_range 0x5C 0x5F c))
            (Seq (Cls (\<lambda>c. c = LBRACKET))
              (Seq (Star (in_range 0x30 0x3F))
                (Seq (Star (in_range 0x20 0x2F)) (Cls (in_range 0x40 0x7E))))))"

definition is_param :: "uchar \<Rightarrow> bool" where
  "is_param c \<longleftrightarrow> in_range 0x30 0x39 c \<or> c = 0x3B"

definition is_ascii_letter :: "uchar \<Rightarrow> bool" where
  "is_ascii_letter c \<longleftrightarrow> in_range 0x61 0x7A c \<or> in_range 0x41 0x5A c"

definition bare_csi :: regex where
  "bare_csi =
     Seq (Cls (\<lambda>c. c = LBRACKET))
       (Alt (Seq (Plus is_param) (Cls is_ascii_letter))
            (Seq (Plus is_param) (Cls (\<lambda>c. c = 0x6D))))"

definition ANSI_ESCAPE :: regex where
  "ANSI_ESCAPE = Alt esc_sequence bare_csi"

text \<open>\<open>clean_text = ANSI_ESCAPE.sub('', text)\<close> in \<open>_read_output\<close>.\<close>

definition sanitize :: "ustring \<Rightarrow> ustring" where
  "sanitize t = re_sub_empty ANSI_ESCAPE None t"


text \<open>
  A text holds an escape sequence when \<open>ANSI_ESCAPE.search\<close> finds a match in it.
\<close>

definition has_escape :: "ustring \<Rightarrow> bool" where
  "has_escape t = re_search ANSI_ESCAPE t"

section \<open>Output classifier (\<open>response_classifier.py\<close>)\<close>

datatype ResponseType = PROMPT | CONFIRMATION | INFO | ERROR | WORKING | COMPLETE

text \<open>
  \<open>classify_response\<close> and \<open>parse_prompt\<close> compile their own pattern
  \<open>\x1B(?:[@-Z\\-_]|\[[0-?]*[ -/]*[@-~])\<close>: the ESC branch of \<open>ANSI_ESCAPE\<close> only.
\<close>

definition ansi_escape :: regex where
  "ansi_escape = esc_sequence"

text \<open>The class \<open>[\<^verbatim>\<open>U+276F\<close> \<^verbatim>\<open>U+2502\<close> \s]\<close> of the option patterns.\<close>

definition POINTER :: uchar where "POINTER = 0x276F"
definition BOX_VERT :: uchar where "BOX_VERT = 0x2502"

definition option_marker :: "uchar \<Rightarrow> bool" where
  "option_marker c \<longleftrightarrow> c = POINTER \<or> c = BOX_VERT \<or> is_space c"

definition is_dot :: "uchar \<Rightarrow> bool" where
  "is_dot c \<longleftrightarrow> c = 46"

text \<open>
  \<open>_has_numbered_options\<close>: the pattern \<open>^\s*[..]*\d+\.\s+\w+\<close> with \<open>re.MULTILINE\<close>;
  \<open>findall\<close> returns one entry for each non-overlapping match.
\<close>

definition numbered_option_pattern :: "unicode_db \<Rightarrow> regex" where
  "numbered_option_pattern U =
     Seq BolM (Seq (Star is_space) (Seq (Star option_marker)
       (Seq (Plus (isdecimal U)) (Seq (Cls is_dot) (Seq (Plus is_space) (Plus (is_word U)))))))"

definition has_numbered_options :: "unicode_db \<Rightarrow> ustring \<Rightarrow> bool" where
  "has_numbered_options U t \<longleftrightarrow>
     (let matches = re_finditer (numbered_option_pattern U) None t
      in length matches \<ge> 2)"

text \<open>
  \<open>_is_confirmation\<close>: one of \<open>\b(yes|no)\b\<close>, \<open>\b(y/n)\b\<close>,
  \<open>\b(confirm|proceed|continue)\b\<close>, \<open>\?$\<close> is found in the lower-cased text, and
  the text has fewer than 500 characters.
\<close>

definition confirmation_patterns :: "unicode_db \<Rightarrow> regex list" where
  "confirmation_patterns U =
     [ Seq (WordB (is_word U))
         (Seq (Group 1 (Alt (Lit (ustr ''yes'')) (Lit (ustr ''no'')))) (WordB (is_word U))),
       Seq (WordB (is_word U)) (Seq (Group 1 (Lit (ustr ''y/n''))) (WordB (is_word U))),
       Seq (WordB (is_word U))
         (Seq (Group 1 (Alt (Lit (ustr ''confirm''))
                         (Alt (Lit (ustr ''proceed'')) (Lit (ustr ''continue'')))))
              (WordB (is_word U))),
       Seq (Cls (\<lambda>c. c = 63)) Eol ]"

definition is_confirmation :: "unicode_db \<Rightarrow> ustring \<Rightarrow> bool" where
  "is_confirmation U t \<longleftrightarrow>
     (let text_lower = lower U t;
          has_question = list_ex (\<lambda>pattern. re_search pattern text_lower) (confirmation_patterns U);
          is_short = (length t < 500)
      in has_question \<and> is_short)"

text \<open>
  \<open>_is_error\<close>.  The two symbols are \<^verbatim>\<open>U+274C\<close> and \<^verbatim>\<open>U+26A0 U+FE0F\<close>.
\<close>

definition error_indicators :: "ustring list" where
  "error_indicators =
     [ ustr ''error'', ustr ''failed'', ustr ''exception'', ustr ''cannot'', ustr ''unable'',
       ustr ''invalid'', ustr ''not found'', ustr ''denied'', ustr ''permission'',
       [0x274C], [0x26A0, 0xFE0F], ustr ''warning'' ]"

definition is_error :: "unicode_db \<Rightarrow> ustring \<Rightarrow> bool" where
  "is_error U t \<longleftrightarrow>
     (let text_lower = lower U t
      in list_ex (\<lambda>indicator. contains indicator text_lower) error_indicators)"

text \<open>
  \<open>_is_working\<close>: an indicator within the first 100 characters of the lower-cased text.
  The symbols are \<^verbatim>\<open>U+23F3\<close>, \<^verbatim>\<open>U+1F504\<close> and \<^verbatim>\<open>U+2699 U+FE0F\<close>.
\<close>

definition working_indicators :: "ustring list" where
  "working_indicators =
     [ ustr ''working on'', ustr ''processing'', ustr ''analyzing'', ustr ''searching'',
       ustr ''reading'', ustr ''writing'', ustr ''creating'', ustr ''updating'',
       ustr ''let me'', ustr ''i will'', ustr ''i am'', [105, 39, 109],
       [0x23F3], [0x1F504], [0x2699, 0xFE0F] ]"

definition is_working :: "unicode_db \<Rightarrow> ustring \<Rightarrow> bool" where
  "is_working U t \<longleftrightarrow>
     (let text_lower = lower U t;
          first_100 = take 100 text_lower
      in list_ex (\<lambda>indicator. contains indicator first_100) working_indicators)"

text \<open>\<open>_is_complete\<close>.  The symbols are \<^verbatim>\<open>U+2705\<close> and \<^verbatim>\<open>U+2713\<close>.\<close>

definition completion_indicators :: "ustring list" where
  "completion_indicators =
     [ ustr ''done'', ustr ''completed'', ustr ''finished'', ustr ''success'',
       ustr ''created successfully'', ustr ''updated successfully'',
       [0x2705], [0x2713], ustr ''ready'' ]"

definition is_complete :: "unicode_db \<Rightarrow> ustring \<Rightarrow> bool" where
  "is_complete U t \<longleftrightarrow>
     (let text_lower = lower U t
      in list_ex (\<lambda>indicator. contains indicator text_lower) completion_indicators)"

text \<open>\<open>classify_response\<close>: the rules in the order of the source.\<close>

definition classify_response :: "unicode_db \<Rightarrow> ustring \<Rightarrow> ResponseType" where
  "classify_response U t =
     (let clean_text = strip (re_sub_empty ansi_escape None t)
      in if clean_text = [] then INFO
         else if has_numbered_options U clean_text then PROMPT
         else if is_confirmation U clean_text then CONFIRMATION
         else if is_error U clean_text then ERROR
         else if is_working U clean_text then WORKING
         else if is_complete U clean_text then COMPLETE
         else INFO)"

definition requires_user_action :: "ResponseType \<Rightarrow> bool" where
  "requires_user_action response_type \<longleftrightarrow> response_type = PROMPT \<or> response_type = CONFIRMATION"

section \<open>Prompt extractor (\<open>prompt_parser.py\<close>)\<close>

text \<open>
  An entry of \<open>options\<close>: the dictionary with the keys \<open>number\<close>, \<open>text\<close> and
  \<open>callback_data\<close>; the result of \<open>parse_prompt\<close>: the dictionary with the keys
  \<open>question\<close>, \<open>options\<close> and \<open>raw_text\<close>.
\<close>

record prompt_option =
  number :: ustring
  option_text :: ustring
  callback_data :: ustring

record parsed_prompt =
  question :: ustring
  options :: "prompt_option list"
  raw_text :: ustring

text \<open>
  \<open>option_pattern\<close>: \<open>^\s*[..]*(\d+)\.\s+(.+?)(?:\s*\<close>\<^verbatim>\<open>U+2502\<close>\<open>)?\s*$\<close> with
  \<open>re.MULTILINE\<close>; \<open>.\<close> is any character but the newline.
\<close>

definition not_newline :: "uchar \<Rightarrow> bool" where
  "not_newline c \<longleftrightarrow> c \<noteq> 10"

definition option_pattern :: "unicode_db \<Rightarrow> regex" where
  "option_pattern U =
     Seq BolM (Seq (Star is_space) (Seq (Star option_marker)
       (Seq (Group 1 (Plus (isdecimal U))) (Seq (Cls is_dot) (Seq (Plus is_space)
         (Seq (Group 2 (PlusLazy not_newline))
           (Seq (Opt (Seq (Star is_space) (Cls (\<lambda>c. c = BOX_VERT))))
             (Seq (Star is_space) EolM))))))))"

definition prompt_indicators :: "ustring list" where
  "prompt_indicators =
     [ ustr ''Yes, proceed'', ustr ''No, exit'', ustr ''Enter to confirm'', ustr ''Esc to exit'',
       ustr ''Do you trust'', ustr ''trust the files'', ustr ''security risks'',
       ustr ''Select an option'', ustr ''Choose:'', ustr ''continue?'' ]"

definition has_indicator :: "unicode_db \<Rightarrow> ustring \<Rightarrow> bool" where
  "has_indicator U clean_text \<longleftrightarrow>
     list_ex (\<lambda>phrase. contains (lower U phrase) (lower U clean_text)) prompt_indicators"

text \<open>
  The loop over \<open>option_pattern.finditer(clean_text)\<close>: a match whose stripped text has
  fewer than 2 characters is skipped, every other one is appended.
\<close>

fun collect_options :: "match list \<Rightarrow> prompt_option list" where
  "collect_options [] = []"
| "collect_options (m # ms) =
     (let option_num = group m 1;
          option_text = strip (group m 2)
      in if length option_text < 2 then collect_options ms
         else \<lparr> number = option_num, option_text = option_text,
                callback_data = ustr ''opt_'' @ option_num \<rparr> # collect_options ms)"

definition extract_options :: "unicode_db \<Rightarrow> ustring \<Rightarrow> prompt_option list" where
  "extract_options U clean_text = collect_options (re_finditer (option_pattern U) None clean_text)"

text \<open>
  The question: each line with the box-drawing characters removed and stripped; a line is
  kept when it is not empty, does not start like an option (\<open>re.match\<close> of
  \<open>^\s*[\<close>\<^verbatim>\<open>U+276F\<close>\<open>\s]*\d+\.\<close>), holds neither footer instruction and has more than
  3 characters.
\<close>

definition is_box_char :: "uchar \<Rightarrow> bool" where
  "is_box_char c \<longleftrightarrow> c \<in> set [0x2502, 0x251C, 0x2500, 0x256D, 0x256E, 0x2570, 0x256F,
                                 0x2514, 0x2518, 0x250C, 0x2510, 0x256F]"

definition option_line_start :: "unicode_db \<Rightarrow> regex" where
  "option_line_start U =
     Seq Bol (Seq (Star is_space) (Seq (Star (\<lambda>c. c = POINTER \<or> is_space c))
       (Seq (Plus (isdecimal U)) (Cls is_dot))))"

definition clean_line_of :: "ustring \<Rightarrow> ustring" where
  "clean_line_of line = strip (re_sub_empty (Cls is_box_char) None line)"

definition is_question_line :: "unicode_db \<Rightarrow> ustring \<Rightarrow> bool" where
  "is_question_line U clean_line \<longleftrightarrow>
     clean_line \<noteq> [] \<and>
     re_match (option_line_start U) clean_line = None \<and>
     \<not> contains (ustr ''Enter to confirm'') clean_line \<and>
     \<not> contains (ustr ''Esc to exit'') clean_line \<and>
     length clean_line > 3"

definition question_lines :: "unicode_db \<Rightarrow> ustring \<Rightarrow> ustring list" where
  "question_lines U clean_text = filter (is_question_line U) (map clean_line_of (split_nl clean_text))"

definition generic_question :: ustring where
  "generic_question = ustr ''Please select an option:''"

definition extract_question :: "unicode_db \<Rightarrow> ustring \<Rightarrow> ustring" where
  "extract_question U clean_text =
     (let question = strip (join_nl (take 6 (question_lines U clean_text)))
      in if length question < 10 then generic_question else question)"

text \<open>\<open>parse_prompt\<close>: \<open>None\<close> where the source returns \<open>None\<close>.\<close>

definition parse_prompt :: "unicode_db \<Rightarrow> ustring \<Rightarrow> parsed_prompt option" where
  "parse_prompt U t =
     (let clean_text = re_sub_empty ansi_escape None t
      in if \<not> has_indicator U clean_text then None
         else let options = extract_options U clean_text
              in if options = [] then None
                 else Some \<lparr> question = extract_question U clean_text,
                             options = options,
                             raw_text = t \<rparr>)"

text \<open>\<open>extract_prompt_details\<close> of the classifier module calls \<open>parse_prompt\<close>.\<close>

definition extract_prompt_details :: "unicode_db \<Rightarrow> ustring \<Rightarrow> parsed_prompt option" where
  "extract_prompt_details U t = parse_prompt U t"

text \<open>The trust-folder prompt of the classifier module (\<open>test_trust_prompt\<close>).\<close>

definition test_trust_prompt :: ustring where
  "test_trust_prompt = join_nl
     [ [],
       [0x256D] @ replicate 78 0x2500 @ [0x256E],
       [BOX_VERT] @ ustr '' Do you trust the files in this folder?                                       '' @ [BOX_VERT],
       [BOX_VERT] @ ustr ''                                                                              '' @ [BOX_VERT],
       [BOX_VERT] @ ustr '' /workspace/8afdab13-0fce-4365-ace8-226127b13f9a                              '' @ [BOX_VERT],
       [BOX_VERT] @ ustr ''                                                                              '' @ [BOX_VERT],
       [BOX_VERT] @ ustr '' Claude Code may read, write, or execute files contained in this directory.   '' @ [BOX_VERT],
       [BOX_VERT] @ ustr '' This can pose security risks, so only use files from trusted sources.        '' @ [BOX_VERT],
       [BOX_VERT] @ ustr ''                                                                              '' @ [BOX_VERT],
       [BOX_VERT] @ ustr '' Learn more ( https://docs.claude.com/s/claude-code-security )                '' @ [BOX_VERT],
       [BOX_VERT] @ ustr ''                                                                              '' @ [BOX_VERT],
       [BOX_VERT] @ ustr '' '' @ [POINTER] @ ustr '' 1. Yes, proceed                                                            '' @ [BOX_VERT],
       [BOX_VERT] @ ustr ''   2. No, exit                                                                '' @ [BOX_VERT],
       [BOX_VERT] @ ustr ''                                                                              '' @ [BOX_VERT],
       [0x2570] @ replicate 77 0x2500 @ [0x256F],
       ustr ''   Enter to confirm '' @ [0xB7] @ ustr '' Esc to exit'',
       ustr ''    '' ]"

section \<open>Session process (\<open>ClaudeCodeProcess\<close> in \<open>session_manager.py\<close>)\<close>

subsection \<open>The read/debounce loop (\<open>_read_output\<close>)\<close>

text \<open>
  The loop keeps two local variables, \<open>buffer\<close> and \<open>last_output_time\<close>, and puts the
  flushed buffers on \<open>_output_queue\<close>.  Times are the values of the event loop's clock, in
  seconds.
\<close>

record reader =
  buffer :: ustring
  last_output_time :: real
  output_queue :: "ustring list"

text \<open>
  What one iteration of \<open>while True\<close> gets from its environment: the decoded text of the bytes
  read (\<open>None\<close> when nothing was read or the read raised), the clock when the text is
  appended, the clock at the flush check, the process's \<open>returncode\<close> at the exit check and,
  for an exited process, the decoded text of the last read.
\<close>

record tick =
  chunk :: "ustring option"
  read_time :: real
  check_time :: real
  exit_status :: "int option"
  remaining :: "ustring option"

text \<open>Lines 133 to 140: only text that is not blank after sanitizing is buffered.\<close>

definition absorb :: "ustring option \<Rightarrow> real \<Rightarrow> reader \<Rightarrow> reader" where
  "absorb data now r =
     (case data of
        None \<Rightarrow> r
      | Some text \<Rightarrow>
          (let clean_text = sanitize text
           in if strip clean_text \<noteq> [] then r\<lparr>buffer := buffer r @ clean_text, last_output_time := now\<rparr>
              else r))"

text \<open>Lines 149 to 159: \<open>if buffer and (time_since_output > 0.5 or len(buffer) > 4096)\<close>.\<close>

definition flush_due :: "ustring \<Rightarrow> real \<Rightarrow> bool" where
  "flush_due buf time_since_output \<longleftrightarrow>
     buf \<noteq> [] \<and> (time_since_output > 0.5 \<or> length buf > 4096)"

definition flush :: "reader \<Rightarrow> reader" where
  "flush r = r\<lparr>output_queue := output_queue r @ [buffer r], buffer := []\<rparr>"

definition debounce :: "real \<Rightarrow> reader \<Rightarrow> reader" where
  "debounce current_time r =
     (let time_since_output = current_time - last_output_time r
      in if flush_due (buffer r) time_since_output then flush r else r)"

text \<open>One read attempt and the flush check behind it.\<close>

definition poll :: "tick \<Rightarrow> reader \<Rightarrow> reader" where
  "poll tk r = debounce (check_time tk) (absorb (chunk tk) (read_time tk) r)"

text \<open>
  Lines 162 to 183, for an exited process: the last read is buffered like any other (the
  clock is not taken again) and a buffer that is not empty is flushed.
\<close>

definition drain :: "ustring option \<Rightarrow> reader \<Rightarrow> reader" where
  "drain data r =
     (let r' = absorb data (last_output_time r) r
      in if buffer r' \<noteq> [] then flush r' else r')"

text \<open>
  The loop, over the ticks its environment gives it: it ends at the first tick at which the
  process has exited; while the process runs it goes on (here: to the end of the ticks
  given).
\<close>

fun read_output_loop :: "reader \<Rightarrow> tick list \<Rightarrow> reader" where
  "read_output_loop r [] = r"
| "read_output_loop r (tk # tks) =
     (let r' = poll tk r
      in case exit_status tk of
           Some rc \<Rightarrow> drain (remaining tk) r'
         | None \<Rightarrow> read_output_loop r' tks)"

definition initial_reader :: "real \<Rightarrow> reader" where
  "initial_reader now = \<lparr>buffer = [], last_output_time = now, output_queue = []\<rparr>"

text \<open>The number of bytes of a text in UTF-8, the encoding the loop decodes.\<close>

definition utf8_len :: "uchar \<Rightarrow> nat" where
  "utf8_len c = (if c < 0x80 then 1 else if c < 0x800 then 2 else if c < 0x10000 then 3 else 4)"

definition utf8_size :: "ustring \<Rightarrow> nat" where
  "utf8_size t = sum_list (map utf8_len t)"

definition has_nonspace :: "ustring \<Rightarrow> bool" where
  "has_nonspace t \<longleftrightarrow> list_ex (\<lambda>c. \<not> is_space c) t"

subsection \<open>Lifecycle (\<open>terminate\<close>, \<open>is_alive\<close>, \<open>send_input\<close>)\<close>

text \<open>
  The fields of \<open>ClaudeCodeProcess\<close> that the lifecycle uses.  \<open>process\<close> is the subprocess
  handle (\<open>None\<close> before \<open>start\<close>), with its \<open>returncode\<close> (\<open>None\<close> while it runs).  The
  reading task has not run yet, is running, or is done.  Two logs record what the object
  does to the outside: the descriptors passed to \<open>os.close\<close> and the signals delivered to
  the subprocess, each in order.
\<close>

datatype task_state = Pending | Running | Done

datatype signal = SIGTERM | SIGKILL

record handle =
  pid :: int
  returncode :: "int option"

record ClaudeCodeProcess =
  process :: "handle option"
  reading_task :: "task_state option"
  master_fd :: "int option"
  slave_fd :: "int option"
  closed_fds :: "int list"
  signals :: "signal list"
  written :: "ustring list"

definition is_alive :: "ClaudeCodeProcess \<Rightarrow> bool" where
  "is_alive p \<longleftrightarrow> (case process p of None \<Rightarrow> False | Some h \<Rightarrow> returncode h = None)"

text \<open>
  What the subprocess does when \<open>terminate\<close> signals it: it exits within the grace period,
  it has to be killed, or signalling raises.  Each of the first two gives the exit code
  that \<open>wait\<close> returns.
\<close>

datatype shutdown = Graceful int | Forced int | Raised

text \<open>
  The \<open>try\<close> block of \<open>terminate\<close>.  \<open>send_signal\<close> on a subprocess that has exited raises
  \<open>ProcessLookupError\<close> and delivers nothing; every exception is caught and logged there.
\<close>

definition stop_process :: "shutdown \<Rightarrow> handle \<Rightarrow> ClaudeCodeProcess \<Rightarrow> ClaudeCodeProcess" where
  "stop_process env h p =
     (case returncode h of
        Some rc \<Rightarrow> p
      | None \<Rightarrow>
          (case env of
             Raised \<Rightarrow> p
           | Graceful rc \<Rightarrow>
               p\<lparr>process := Some (h\<lparr>returncode := Some rc\<rparr>), signals := signals p @ [SIGTERM]\<rparr>
           | Forced rc \<Rightarrow>
               p\<lparr>process := Some (h\<lparr>returncode := Some rc\<rparr>),
                 signals := signals p @ [SIGTERM, SIGKILL]\<rparr>))"

text \<open>\<open>os.close\<close> of a descriptor field that is not \<open>None\<close>; the field is \<open>None\<close> afterwards.\<close>

definition close_master :: "ClaudeCodeProcess \<Rightarrow> ClaudeCodeProcess" where
  "close_master p =
     (case master_fd p of
        None \<Rightarrow> p
      | Some fd \<Rightarrow> p\<lparr>closed_fds := closed_fds p @ [fd], master_fd := None\<rparr>)"

definition close_slave :: "ClaudeCodeProcess \<Rightarrow> ClaudeCodeProcess" where
  "close_slave p =
     (case slave_fd p of
        None \<Rightarrow> p
      | Some fd \<Rightarrow> p\<lparr>closed_fds := closed_fds p @ [fd], slave_fd := None\<rparr>)"

text \<open>
  Cancelling the reading task and awaiting it.  A running task is interrupted inside its
  \<open>try\<close> and runs its \<open>finally\<close> block, which closes the master descriptor; a task that
  has not run yet is cancelled without running any of its code; a task that is done is
  left alone.
\<close>

definition cancel_reading_task :: "ClaudeCodeProcess \<Rightarrow> ClaudeCodeProcess" where
  "cancel_reading_task p =
     (case reading_task p of
        None \<Rightarrow> p
      | Some Done \<Rightarrow> p
      | Some Pending \<Rightarrow> p\<lparr>reading_task := Some Done\<rparr>
      | Some Running \<Rightarrow> (close_master p)\<lparr>reading_task := Some Done\<rparr>)"

definition terminate :: "shutdown \<Rightarrow> ClaudeCodeProcess \<Rightarrow> ClaudeCodeProcess" where
  "terminate env p =
     (case process p of
        None \<Rightarrow> p
      | Some h \<Rightarrow> close_slave (close_master (cancel_reading_task (stop_process env h p))))"


text \<open>
  The failures the session code raises; all are \<open>RuntimeError\<close>s in the source, told apart
  by their message: the session is not in the live map, the process is not alive (the
  message holds its exit code, or \<open>unknown\<close> when there is no subprocess handle), the
  input could not be sent.
\<close>

datatype error =
    SessionNotRunning string
  | ProcessCrashed "int option"
  | SendFailed

text \<open>
  \<open>send_input\<close>: raises when the process was never started or the master descriptor is
  gone, and when the write itself fails (\<open>write_ok\<close> is what the operating system does).
\<close>

definition send_input :: "bool \<Rightarrow> ustring \<Rightarrow> ClaudeCodeProcess \<Rightarrow> error + ClaudeCodeProcess" where
  "send_input write_ok t p =
     (if process p = None \<or> master_fd p = None then Inl SendFailed
      else if \<not> write_ok then Inl SendFailed
      else Inr (p\<lparr>written := written p @ [t @ [10]]\<rparr>))"

section \<open>Session registry (\<open>SessionManager\<close> in \<open>session_manager.py\<close>)\<close>

text \<open>
  The rows of the storage collaborator that the registry updates (\<open>DatabaseManager\<close>),
  keyed by session identifier.  \<open>update_session\<close> is an \<open>UPDATE .. WHERE id = ..\<close>: it
  changes the row of that identifier and nothing when there is none.
\<close>

datatype SessionStatus = ACTIVE | PAUSED | CRASHED | TERMINATED

record session_row =
  user_id :: int
  status :: SessionStatus
  row_pid :: "int option"
  last_activity :: real

type_synonym database = "string \<rightharpoonup> session_row"

definition update_session ::
  "string \<Rightarrow> SessionStatus option \<Rightarrow> real option \<Rightarrow> database \<Rightarrow> database" where
  "update_session session_id new_status new_activity d =
     (case d session_id of
        None \<Rightarrow> d
      | Some row \<Rightarrow>
          d(session_id \<mapsto>
            row\<lparr>status := (case new_status of None \<Rightarrow> status row | Some s \<Rightarrow> s),
                last_activity := (case new_activity of None \<Rightarrow> last_activity row | Some a \<Rightarrow> a)\<rparr>))"

record SessionManager =
  sessions :: "string \<rightharpoonup> ClaudeCodeProcess"
  active_sessions :: "int \<rightharpoonup> string"
  db :: database

text \<open>
  \<open>terminate_session\<close>: the live process, if there is one, is terminated and removed; the
  row is updated; every user whose active session this is loses the selection; the result
  is \<open>True\<close>.  The model returns it with the registry afterwards and the process object that
  was terminated and dropped, if there was one.
\<close>

definition drop_active :: "string \<Rightarrow> (int \<rightharpoonup> string) \<Rightarrow> (int \<rightharpoonup> string)" where
  "drop_active session_id a = (\<lambda>user. if a user = Some session_id then None else a user)"

definition terminate_session ::
  "shutdown \<Rightarrow> real \<Rightarrow> string \<Rightarrow> SessionManager \<Rightarrow> bool \<times> SessionManager \<times> ClaudeCodeProcess option" where
  "terminate_session env now session_id m =
     (let stopped = map_option (terminate env) (sessions m session_id);
          m1 = (case sessions m session_id of
                  None \<Rightarrow> m
                | Some p \<Rightarrow> m\<lparr>sessions := (sessions m)(session_id := None)\<rparr>);
          m2 = m1\<lparr>db := update_session session_id (Some TERMINATED) (Some now) (db m1)\<rparr>;
          m3 = m2\<lparr>active_sessions := drop_active session_id (active_sessions m2)\<rparr>
      in (True, m3, stopped))"

text \<open>
  \<open>send_message\<close> is a generator: the result is its failure, or the chunks it yields and
  the registry afterwards.  \<open>stream\<close> is what \<open>read_output(timeout=60.0)\<close> yields; when it
  yields nothing the generator yields one line of its own (it starts with the symbol
  \<^verbatim>\<open>U+2705\<close>).
\<close>

definition no_output_notice :: ustring where
  "no_output_notice = [0x2705] @ ustr '' Command sent (no output received)''"

definition exit_code_of :: "ClaudeCodeProcess \<Rightarrow> int option" where
  "exit_code_of p = (case process p of None \<Rightarrow> None | Some h \<Rightarrow> returncode h)"

definition send_message ::
  "bool \<Rightarrow> ustring list \<Rightarrow> real \<Rightarrow> string \<Rightarrow> ustring \<Rightarrow> SessionManager \<Rightarrow>
   error + (ustring list \<times> SessionManager)" where
  "send_message write_ok stream now session_id message m =
     (case sessions m session_id of
        None \<Rightarrow> Inl (SessionNotRunning session_id)
      | Some p \<Rightarrow>
          if \<not> is_alive p then Inl (ProcessCrashed (exit_code_of p))
          else (case send_input write_ok message p of
                  Inl e \<Rightarrow> Inl SendFailed
                | Inr p' \<Rightarrow>
                    (let m' = m\<lparr>sessions := (sessions m)(session_id \<mapsto> p'),
                                 db := update_session session_id None (Some now) (db m)\<rparr>
                     in if stream = [] then Inr ([no_output_notice], m')
                        else Inr (stream, m'))))"

text \<open>
  The failures that say that the session has no running process, and the exit code such a
  failure carries.
\<close>

fun not_running :: "error \<Rightarrow> bool" where
  "not_running (SessionNotRunning session_id) = True"
| "not_running (ProcessCrashed code) = True"
| "not_running SendFailed = False"

fun surfaced_exit_code :: "error \<Rightarrow> int option" where
  "surfaced_exit_code (ProcessCrashed code) = code"
| "surfaced_exit_code e = None"

section \<open>Notions used to state the properties\<close>

text \<open>One of the given strings occurs in the text.\<close>

definition mentions_any :: "ustring list \<Rightarrow> ustring \<Rightarrow> bool" where
  "mentions_any keys t \<longleftrightarrow> list_ex (\<lambda>k. contains k t) keys"

text \<open>
  The keyword and symbol set as the specification lists it: the nine keywords and the two
  symbol markers.
\<close>

definition specified_error_markers :: "ustring list" where
  "specified_error_markers =
     [ ustr ''error'', ustr ''failed'', ustr ''exception'', ustr ''cannot'', ustr ''unable'',
       ustr ''invalid'', ustr ''not found'', ustr ''denied'', ustr ''permission'',
       [0x274C], [0x26A0, 0xFE0F] ]"

text \<open>The sanitized text \<open>classify_response\<close> decides on, and the one \<open>parse_prompt\<close> parses.\<close>

definition classified_text :: "ustring \<Rightarrow> ustring" where
  "classified_text t = strip (re_sub_empty ansi_escape None t)"

definition parsed_text :: "ustring \<Rightarrow> ustring" where
  "parsed_text t = re_sub_empty ansi_escape None t"

text \<open>The labels and the label/text pairs of a list of options, in their order.\<close>

definition labels :: "prompt_option list \<Rightarrow> ustring list" where
  "labels os = map number os"

definition label_text_pairs :: "prompt_option list \<Rightarrow> (ustring \<times> ustring) list" where
  "label_text_pairs os = map (\<lambda>opt. (number opt, option_text opt)) os"

text \<open>
  The option that the loop of \<open>parse_prompt\<close> builds from a match of the option pattern, and
  the matches it builds one from.
\<close>

definition option_of_match :: "match \<Rightarrow> prompt_option" where
  "option_of_match m =
     \<lparr>number = group m 1, option_text = strip (group m 2), callback_data = ustr ''opt_'' @ group m 1\<rparr>"

definition long_enough :: "match \<Rightarrow> bool" where
  "long_enough m \<longleftrightarrow> 2 \<le> length (strip (group m 2))"

definition option_matches :: "unicode_db \<Rightarrow> ustring \<Rightarrow> match list" where
  "option_matches U t = re_finditer (option_pattern U) None (parsed_text t)"

text \<open>The labels of the prompt that \<open>parse_prompt\<close> returns.\<close>

definition parsed_labels :: "unicode_db \<Rightarrow> ustring \<Rightarrow> ustring list option" where
  "parsed_labels U t = map_option (\<lambda>p. labels (options p)) (parse_prompt U t)"

text \<open>
  The invariant of the read/debounce loop: the buffer is empty or holds a character that is
  not whitespace, and so does every unit on the queue.
\<close>

definition reader_ok :: "reader \<Rightarrow> bool" where
  "reader_ok r \<longleftrightarrow> (buffer r = [] \<or> has_nonspace (buffer r)) \<and> list_all has_nonspace (output_queue r)"

text \<open>
  Examples: a running process with its master descriptor open, a registry that holds it as
  session \<open>s1\<close> of user 7, and a run of the read loop that reads \<open>hi\<close>, then a colour reset,
  then nothing, and then finds the process exited.
\<close>

definition example_process :: ClaudeCodeProcess where
  "example_process =
     \<lparr>process = Some \<lparr>pid = 100, returncode = None\<rparr>, reading_task = Some Running,
      master_fd = Some 5, slave_fd = None, closed_fds = [], signals = [], written = []\<rparr>"

definition example_registry :: SessionManager where
  "example_registry =
     \<lparr>sessions = [''s1'' \<mapsto> example_process],
      active_sessions = [7 \<mapsto> ''s1''],
      db = [''s1'' \<mapsto> \<lparr>user_id = 7, status = ACTIVE, row_pid = Some 100, last_activity = 0\<rparr>]\<rparr>"

definition example_ticks :: "tick list" where
  "example_ticks =
     [ \<lparr>chunk = Some (ustr ''hi''), read_time = 0.1, check_time = 0.1, exit_status = None,
        remaining = None\<rparr>,
       \<lparr>chunk = Some ([27] @ ustr ''[0m''), read_time = 0.2, check_time = 0.2, exit_status = None,
        remaining = None\<rparr>,
       \<lparr>chunk = None, read_time = 0.7, check_time = 0.7, exit_status = None, remaining = None\<rparr>,
       \<lparr>chunk = None, read_time = 0.8, check_time = 0.8, exit_status = Some 0, remaining = None\<rparr> ]"

section \<open>Evaluation\<close>

text \<open>
  Equations in the form the simplifier evaluates fastest on long texts.  A pattern that
  starts with \<open>^\<close> (multi-line) fails wherever the character before is not a newline; a
  pattern that starts with a character class fails wherever the character is not in the
  class.  No attempt has to look at the rest of the text there.
\<close>

lemma attempt_BolM_inside: "d \<noteq> 10 \<Longrightarrow> attempt (Seq BolM x) (Some d) t = None"
  by (simp add: attempt_def)

lemma re_finditer_BolM_inside:
  "d \<noteq> 10 \<Longrightarrow> re_finditer (Seq BolM x) (Some d) (c # cs) = re_finditer (Seq BolM x) (Some c) cs"
  by (simp add: attempt_BolM_inside)

lemma re_finditer_BolM_inside_end: "d \<noteq> 10 \<Longrightarrow> re_finditer (Seq BolM x) (Some d) [] = []"
  by (simp add: attempt_BolM_inside)

lemma attempt_Cls_first: "\<not> p c \<Longrightarrow> attempt (Seq (Cls p) x) prev (c # cs) = None"
  by (simp add: attempt_def)

lemma re_sub_empty_first:
  "\<not> p c \<Longrightarrow>
   re_sub_empty (Seq (Cls p) x) prev (c # cs) = c # re_sub_empty (Seq (Cls p) x) (Some c) cs"
  by (simp add: attempt_Cls_first)

lemma re_sub_empty_first2:
  "\<not> p c \<Longrightarrow> \<not> q c \<Longrightarrow>
   re_sub_empty (Alt (Seq (Cls p) x) (Seq (Cls q) y)) prev (c # cs) =
     c # re_sub_empty (Alt (Seq (Cls p) x) (Seq (Cls q) y)) (Some c) cs"
  by (simp add: attempt_def)

lemma re_sub_empty_Cls_no:
  "\<not> p c \<Longrightarrow> re_sub_empty (Cls p) prev (c # cs) = c # re_sub_empty (Cls p) (Some c) cs"
  by (simp add: attempt_def)

lemma re_sub_empty_Cls_yes:
  "p c \<Longrightarrow> re_sub_empty (Cls p) prev (c # cs) = re_sub_empty (Cls p) (Some c) cs"
  by (simp add: attempt_def)

lemmas scan_first_eval =
  re_sub_empty.simps(1) re_sub_empty_first re_sub_empty_first2 re_sub_empty_Cls_no
  re_sub_empty_Cls_yes

lemmas re_finditer_line_eval =
  re_finditer_BolM_inside re_finditer_BolM_inside_end
  re_finditer.simps(1) [where prev = None] re_finditer.simps(1) [where prev = "Some 10"]
  re_finditer.simps(2) [where prev = None] re_finditer.simps(2) [where prev = "Some 10"]

lemma run_EolM_end: "run (Match EolM # k) (prev, [], n, caps) = run k (prev, [], n, caps)"
  by simp

lemma run_EolM_char:
  "run (Match EolM # k) (prev, c # cs, n, caps) =
     (if c = 10 then run k (prev, c # cs, n, caps) else None)"
  by simp

lemma run_Eol_end: "run (Match Eol # k) (prev, [], n, caps) = run k (prev, [], n, caps)"
  by simp

lemma run_Eol_last:
  "run (Match Eol # k) (prev, [c], n, caps) = (if c = 10 then run k (prev, [c], n, caps) else None)"
  by simp

lemma run_Eol_inside: "run (Match Eol # k) (prev, c # d # ds, n, caps) = None"
  by simp

lemma run_Bol_start: "run (Match Bol # k) (None, rest, n, caps) = run k (None, rest, n, caps)"
  by simp

lemma run_Bol_inside: "run (Match Bol # k) (Some c, rest, n, caps) = None"
  by simp

lemma run_BolM_start: "run (Match BolM # k) (None, rest, n, caps) = run k (None, rest, n, caps)"
  by simp

lemma run_BolM_char:
  "run (Match BolM # k) (Some c, rest, n, caps) =
     (if c = 10 then run k (Some c, rest, n, caps) else None)"
  by simp

lemma run_WordB_end:
  "run (Match (WordB w) # k) (prev, [], n, caps) =
     (if (case prev of None \<Rightarrow> False | Some d \<Rightarrow> w d) then run k (prev, [], n, caps) else None)"
  by (simp add: at_word_boundary_def)

lemma run_WordB_char:
  "run (Match (WordB w) # k) (prev, c # cs, n, caps) =
     (if (case prev of None \<Rightarrow> False | Some d \<Rightarrow> w d) \<noteq> w c
      then run k (prev, c # cs, n, caps) else None)"
  by (simp add: at_word_boundary_def)

lemmas run_eval =
  run.simps(1-17) run_Bol_start run_Bol_inside run_BolM_start run_BolM_char
  run_Eol_end run_Eol_last run_Eol_inside run_EolM_end run_EolM_char
  run_WordB_end run_WordB_char attempt_def

text \<open>Lists, pairs, numerals and the strings' characters.\<close>

lemma dropWhile_yes: "P x \<Longrightarrow> dropWhile P (x # xs) = dropWhile P xs"
  by simp

lemma dropWhile_no: "\<not> P x \<Longrightarrow> dropWhile P (x # xs) = x # xs"
  by simp

lemma filter_yes: "P x \<Longrightarrow> filter P (x # xs) = x # filter P xs"
  by simp

lemma filter_no: "\<not> P x \<Longrightarrow> filter P (x # xs) = filter P xs"
  by simp

lemma split_nl_acc_yes: "c = 10 \<Longrightarrow> split_nl_acc acc (c # cs) = rev acc # split_nl_acc [] cs"
  by simp

lemma split_nl_acc_no: "c \<noteq> 10 \<Longrightarrow> split_nl_acc acc (c # cs) = split_nl_acc (c # acc) cs"
  by simp

lemma ascii_lower_upper: "65 \<le> c \<Longrightarrow> c \<le> 90 \<Longrightarrow> ascii_lower c = c + 32"
  by (simp add: ascii_lower_def)

lemma ascii_lower_below: "c < 65 \<Longrightarrow> ascii_lower c = c"
  by (simp add: ascii_lower_def)

lemma ascii_lower_above: "90 < c \<Longrightarrow> ascii_lower c = c"
  by (simp add: ascii_lower_def)

lemma length_Cons_Suc: "length (x # xs) = Suc (length xs)"
  by simp

lemma replicate_numeral_Cons: "replicate (numeral k) x = x # replicate (pred_numeral k) x"
  by (simp add: numeral_eq_Suc)

lemma take_numeral_Cons: "take (numeral k) (x # xs) = x # take (pred_numeral k) xs"
  by (simp add: numeral_eq_Suc)

lemma Suc_less_numeral_iff: "Suc n < numeral k \<longleftrightarrow> n < pred_numeral k"
  by (simp add: numeral_eq_Suc)

lemma numeral_less_Suc_iff: "numeral k < Suc n \<longleftrightarrow> pred_numeral k < n"
  by (simp add: numeral_eq_Suc)

lemma Suc_le_numeral_iff: "Suc n \<le> numeral k \<longleftrightarrow> n \<le> pred_numeral k"
  by (simp add: numeral_eq_Suc)

lemma numeral_le_Suc_iff: "numeral k \<le> Suc n \<longleftrightarrow> pred_numeral k \<le> n"
  by (simp add: numeral_eq_Suc)

lemma numeral_le_zero_iff: "numeral k \<le> (0::nat) \<longleftrightarrow> False"
  by simp

lemma numeral_less_zero_iff: "numeral k < (0::nat) \<longleftrightarrow> False"
  by simp

lemmas list_eval =
  list.map append.simps concat.simps list.sel list.inject list.distinct list.size(3)
  length_Cons_Suc list.case prod.case option.case fst_conv snd_conv prod.inject option.inject
  option.distinct dropWhile.simps(1) dropWhile_yes dropWhile_no filter.simps(1) filter_yes
  filter_no rev_conv_fold fold_simps take_Suc_Cons take_0 take.simps(1) drop_Suc_Cons drop_0
  drop.simps(1) diff_Suc_Suc diff_zero minus_nat.diff_0 Suc_less_eq Suc_le_mono zero_less_Suc
  not_less_zero le0 list_ex_Nil_iff list_ex_Cons_iff map_of.simps fun_upd_apply
  starts_with.simps contains.simps split_nl_def split_nl_acc.simps(1) split_nl_acc_yes
  split_nl_acc_no join_nl.simps replicate_numeral_Cons pred_numeral_simps replicate.simps
  match_of_def group_def take_numeral_Cons Suc_less_numeral_iff numeral_less_Suc_iff
  Suc_le_numeral_iff numeral_le_Suc_iff numeral_le_zero_iff numeral_less_zero_iff
  zero_less_numeral BitM.simps

lemmas num_eval =
  rel_simps arith_simps simp_thms if_True if_False of_char_Char horner_sum_simps of_bool_eq
  mult_zero_right mult_zero_left add_0_left add_0_right mult_1_left mult_1_right
  one_plus_numeral numeral_plus_one one_add_one
  ascii_lower_upper ascii_lower_below ascii_lower_above

lemmas model_eval =
  ustr_def is_space_def in_range_def ESC_def LBRACKET_def POINTER_def BOX_VERT_def
  option_marker_def is_dot_def not_newline_def is_word_def is_param_def is_ascii_letter_def
  ascii_db_def unicode_db.simps lstrip_def rstrip_def strip_def

lemmas eval = run_eval list_eval num_eval model_eval

section \<open>Properties of the matcher\<close>

lemma run_length: "run k s = Some (q, r, m, cs) \<Longrightarrow> length r \<le> length (fst (snd s))"
proof (induction k s arbitrary: q r m cs rule: run.induct)
  case (7 p k prev c cs n caps)
  then show ?case by (fastforce split: if_splits option.splits)
next
  case (11 p k prev c cs n caps)
  then show ?case by (fastforce split: if_splits option.splits)
qed (fastforce split: if_splits option.splits)+

lemma run_Cls_first_length:
  "run (Match (Cls p) # k) (prev, t, n, caps) = Some (q, r, m, cs) \<Longrightarrow> length r < length t"
  by (cases t) (auto split: if_splits dest!: run_length)

lemma re_sub_empty_length: "length (re_sub_empty rx prev t) \<le> length t"
proof (induction rx prev t rule: re_sub_empty.induct)
  case (1 r prev)
  show ?case by simp
next
  case (2 r prev c cs)
  show ?case
  proof (cases "attempt r prev (c # cs)")
    case None
    with 2(1) show ?thesis by simp
  next
    case (Some m)
    obtain q rest' n caps where m: "m = (q, rest', n, caps)" by (cases m)
    show ?thesis
    proof (cases "length rest' < length (c # cs)")
      case True
      have ih: "length (re_sub_empty r q rest') \<le> length rest'"
        using 2(2) Some m True by blast
      have "re_sub_empty r prev (c # cs) = re_sub_empty r q rest'"
        using True by (simp add: Some m)
      with ih True show ?thesis by simp
    next
      case False
      have ih: "length (re_sub_empty r (Some c) cs) \<le> length cs"
        using 2(3) Some m False by blast
      have "re_sub_empty r prev (c # cs) = c # re_sub_empty r (Some c) cs"
        using False by (simp add: Some m)
      with ih show ?thesis by simp
    qed
  qed
qed

section \<open>Properties of the sanitizer\<close>

lemma ANSI_nonempty:
  "attempt ANSI_ESCAPE prev t = Some (q, r, m, cs) \<Longrightarrow> length r < length t"
  unfolding attempt_def ANSI_ESCAPE_def esc_sequence_def bare_csi_def
  by (auto split: option.splits dest: run_Cls_first_length)

lemma ANSI_no_empty_input: "attempt ANSI_ESCAPE prev [] = None"
  by (simp add: attempt_def ANSI_ESCAPE_def esc_sequence_def bare_csi_def)

lemma sub_fix_iff:
  "re_sub_empty ANSI_ESCAPE prev t = t \<longleftrightarrow> \<not> re_search_from ANSI_ESCAPE prev t"
proof (induction t arbitrary: prev)
  case Nil
  show ?case by (simp add: ANSI_no_empty_input)
next
  case (Cons c cs)
  show ?case
  proof (cases "attempt ANSI_ESCAPE prev (c # cs)")
    case None
    then show ?thesis using Cons.IH[of "Some c"] by simp
  next
    case (Some m)
    obtain q rest' n caps where m: "m = (q, rest', n, caps)" by (cases m)
    have lt: "length rest' < length (c # cs)"
      using Some m by (auto dest: ANSI_nonempty)
    have eq: "re_sub_empty ANSI_ESCAPE prev (c # cs) = re_sub_empty ANSI_ESCAPE q rest'"
      using lt by (simp add: Some m)
    have "length (re_sub_empty ANSI_ESCAPE q rest') \<le> length rest'"
      by (rule re_sub_empty_length)
    with lt eq have "length (re_sub_empty ANSI_ESCAPE prev (c # cs)) < length (c # cs)" by simp
    then have "re_sub_empty ANSI_ESCAPE prev (c # cs) \<noteq> c # cs" by auto
    moreover have "re_search_from ANSI_ESCAPE prev (c # cs)" by (simp add: Some)
    ultimately show ?thesis by simp
  qed
qed

text \<open>
  Claim C3 (as amended).  Sanitizing twice gives the same text as sanitizing once exactly
  when the sanitized text holds no escape sequence: \<open>sanitize (sanitize x) = sanitize x\<close> if
  and only if \<open>ANSI_ESCAPE\<close> finds no match in \<open>sanitize x\<close>.  One pass removes the matches
  it finds from left to right and does not look at what the removal joins.
\<close>

theorem sanitize_idempotent_iff:
  "sanitize (sanitize x) = sanitize x \<longleftrightarrow> \<not> has_escape (sanitize x)"
  by (simp add: sanitize_def has_escape_def re_search_def sub_fix_iff)

text \<open>
  The witness for C3: a coloured \<open>hello\<close> is sanitized to \<open>hello\<close>, which holds no escape
  sequence and is left unchanged by a second pass.
\<close>

theorem sanitize_idempotent_iff_witness:
  "sanitize (sanitize ([27] @ ustr ''[31mhello'' @ [27] @ ustr ''[0m'')) = ustr ''hello''
   \<and> \<not> has_escape (sanitize ([27] @ ustr ''[31mhello'' @ [27] @ ustr ''[0m''))"
proof -
  have s: "sanitize ([27] @ ustr ''[31mhello'' @ [27] @ ustr ''[0m'') = ustr ''hello''"
    by code_simp
  have h: "\<not> has_escape (ustr ''hello'')" by code_simp
  from sanitize_idempotent_iff[of "[27] @ ustr ''[31mhello'' @ [27] @ ustr ''[0m''"] s h
  show ?thesis by simp
qed

text \<open>
  The counterexample for C3 as stated: in \<open>ESC ESC A A\<close> the first pass finds no sequence at
  the first \<open>ESC\<close> (an \<open>ESC\<close> follows), removes \<open>ESC A\<close> behind it and leaves \<open>ESC A\<close>, itself an
  escape sequence, which a second pass removes.
\<close>

theorem sanitize_not_idempotent:
  "sanitize (sanitize [27, 27, 65, 65]) \<noteq> sanitize [27, 27, 65, 65]"
  by code_simp

section \<open>Properties of the classifier\<close>

lemma is_error_mentions: "is_error U t \<longleftrightarrow> mentions_any error_indicators (lower U t)"
  by (simp add: is_error_def mentions_any_def)

text \<open>
  Claim C7 (as amended).  For every text on which no rule of higher priority fires (the
  sanitized text is not empty, has fewer than two numbered options and is no confirmation),
  \<open>classify_response\<close> returns \<open>ERROR\<close> if and only if the lower-cased sanitized text holds
  one of \<open>error\<close>, \<open>failed\<close>, \<open>exception\<close>, \<open>cannot\<close>, \<open>unable\<close>, \<open>invalid\<close>,
  \<open>not found\<close>, \<open>denied\<close>, \<open>permission\<close>, \<open>warning\<close> or one of the two symbol markers.
\<close>

theorem classify_error_iff:
  assumes "classified_text t \<noteq> []"
    and "\<not> has_numbered_options U (classified_text t)"
    and "\<not> is_confirmation U (classified_text t)"
  shows "classify_response U t = ERROR \<longleftrightarrow>
         mentions_any
           [ ustr ''error'', ustr ''failed'', ustr ''exception'', ustr ''cannot'', ustr ''unable'',
             ustr ''invalid'', ustr ''not found'', ustr ''denied'', ustr ''permission'',
             [0x274C], [0x26A0, 0xFE0F], ustr ''warning'' ]
           (lower U (classified_text t))"
  using assms
  by (simp add: classify_response_def classified_text_def Let_def is_error_mentions
      error_indicators_def)

text \<open>
  The witness for C7: \<open>Error: file not found\<close> is classified as \<open>ERROR\<close>.
\<close>

theorem classify_error_iff_witness:
  "classified_text (ustr ''Error: file not found'') \<noteq> []
   \<and> \<not> has_numbered_options ascii_db (classified_text (ustr ''Error: file not found''))
   \<and> \<not> is_confirmation ascii_db (classified_text (ustr ''Error: file not found''))
   \<and> classify_response ascii_db (ustr ''Error: file not found'') = ERROR
   \<and> mentions_any
           [ ustr ''error'', ustr ''failed'', ustr ''exception'', ustr ''cannot'', ustr ''unable'',
             ustr ''invalid'', ustr ''not found'', ustr ''denied'', ustr ''permission'',
             [0x274C], [0x26A0, 0xFE0F], ustr ''warning'' ]
           (lower ascii_db (classified_text (ustr ''Error: file not found'')))"
proof -
  have a: "classified_text (ustr ''Error: file not found'') \<noteq> []" by code_simp
  have b: "\<not> has_numbered_options ascii_db (classified_text (ustr ''Error: file not found''))"
    by code_simp
  have c: "\<not> is_confirmation ascii_db (classified_text (ustr ''Error: file not found''))"
    by code_simp
  have d: "classify_response ascii_db (ustr ''Error: file not found'') = ERROR" by code_simp
  from classify_error_iff [OF a b c] a b c d show ?thesis by simp
qed

text \<open>
  The counterexample for C7 as stated: \<open>warning\<close> holds none of the nine keywords the
  specification lists and no symbol marker, no rule of higher priority fires on it, and it
  is classified as \<open>ERROR\<close>: the source also lists the keyword \<open>warning\<close>.
\<close>

theorem classify_error_warning:
  "classified_text (ustr ''warning'') = ustr ''warning''
   \<and> \<not> has_numbered_options ascii_db (ustr ''warning'')
   \<and> \<not> is_confirmation ascii_db (ustr ''warning'')
   \<and> classify_response ascii_db (ustr ''warning'') = ERROR
   \<and> \<not> mentions_any specified_error_markers (lower ascii_db (ustr ''warning''))"
  by code_simp

section \<open>Properties of the prompt extractor\<close>

lemma collect_options_texts:
  "list_all (\<lambda>opt. 2 \<le> length (option_text opt)) (collect_options ms)"
  by (induction ms) (auto simp: Let_def)

text \<open>
  Claim C1 (as amended).  If \<open>classify_response\<close> returns \<open>PROMPT\<close>, then \<open>parse_prompt\<close>
  returns \<open>None\<close> exactly when the sanitized text holds no indicator phrase or no option
  with a text of at least 2 characters is found in it; otherwise it returns a prompt whose
  options are the options found: at least 1 (not necessarily 2), each with a text of at
  least 2 characters.
\<close>

theorem prompt_extraction:
  assumes "classify_response U t = PROMPT"
  shows "case parse_prompt U t of
           None \<Rightarrow> \<not> has_indicator U (parsed_text t) \<or> extract_options U (parsed_text t) = []
         | Some p \<Rightarrow> has_indicator U (parsed_text t) \<and>
                     options p = extract_options U (parsed_text t) \<and>
                     1 \<le> length (options p) \<and>
                     list_all (\<lambda>opt. 2 \<le> length (option_text opt)) (options p)"
  using collect_options_texts [of "re_finditer (option_pattern U) None (parsed_text t)"]
  by (cases "extract_options U (parsed_text t)")
     (auto simp: parse_prompt_def parsed_text_def Let_def extract_options_def)

text \<open>
  The witness for C1: a menu under the indicator phrase \<open>Choose:\<close> is classified as
  \<open>PROMPT\<close> and parsed into its two options.
\<close>

theorem prompt_extraction_witness:
  "classify_response ascii_db (ustr ''Choose:'' @ [10] @ ustr ''1. ab'' @ [10] @ ustr ''2. cd'') = PROMPT
   \<and> parsed_labels ascii_db (ustr ''Choose:'' @ [10] @ ustr ''1. ab'' @ [10] @ ustr ''2. cd'')
       = Some [ustr ''1'', ustr ''2'']
   \<and> has_indicator ascii_db (parsed_text (ustr ''Choose:'' @ [10] @ ustr ''1. ab'' @ [10] @ ustr ''2. cd''))"
proof -
  let ?t = "ustr ''Choose:'' @ [10] @ ustr ''1. ab'' @ [10] @ ustr ''2. cd''"
  have c: "classify_response ascii_db ?t = PROMPT" by code_simp
  have l: "parsed_labels ascii_db ?t = Some [ustr ''1'', ustr ''2'']" by code_simp
  then obtain p where p: "parse_prompt ascii_db ?t = Some p"
    by (auto simp: parsed_labels_def)
  from prompt_extraction [OF c] p have "has_indicator ascii_db (parsed_text ?t)" by simp
  with c l show ?thesis by simp
qed

text \<open>
  The counterexamples for C1 as stated.  Two numbered lines without an indicator phrase are
  classified as \<open>PROMPT\<close> and \<open>parse_prompt\<close> returns \<open>None\<close>.  Under the indicator phrase
  \<open>Choose:\<close>, two options with one-character texts give \<open>None\<close> as well, and one of them
  with a longer text gives a prompt with a single option.
\<close>

theorem prompt_without_extraction:
  "classify_response ascii_db (ustr ''1. ab'' @ [10] @ ustr ''2. cd'') = PROMPT
   \<and> parse_prompt ascii_db (ustr ''1. ab'' @ [10] @ ustr ''2. cd'') = None
   \<and> classify_response ascii_db (ustr ''Choose:'' @ [10] @ ustr ''1. a'' @ [10] @ ustr ''2. b'') = PROMPT
   \<and> parse_prompt ascii_db (ustr ''Choose:'' @ [10] @ ustr ''1. a'' @ [10] @ ustr ''2. b'') = None
   \<and> classify_response ascii_db (ustr ''Choose:'' @ [10] @ ustr ''1. a'' @ [10] @ ustr ''2. bc'') = PROMPT
   \<and> parsed_labels ascii_db (ustr ''Choose:'' @ [10] @ ustr ''1. a'' @ [10] @ ustr ''2. bc'')
       = Some [ustr ''2'']"
  by code_simp

lemma collect_options_filter:
  "collect_options ms = map option_of_match (filter long_enough ms)"
  by (induction ms) (auto simp: Let_def option_of_match_def long_enough_def)

text \<open>
  Claim C6 (as amended).  Where an indicator phrase is found, every match of the option
  pattern whose stripped option text has at least 2 characters becomes an option of the
  prompt that \<open>parse_prompt\<close> returns, in the order of the matches, whether labels repeat or
  not: duplicate labels are not looked for.  \<open>parse_prompt\<close> returns \<open>None\<close> only when no
  indicator phrase is found or no match is long enough, and it returns for every input.
\<close>

theorem parse_prompt_keeps_options:
  "parse_prompt U t =
     (if has_indicator U (parsed_text t) \<and> filter long_enough (option_matches U t) \<noteq> []
      then Some \<lparr>question = extract_question U (parsed_text t),
                  options = map option_of_match (filter long_enough (option_matches U t)),
                  raw_text = t\<rparr>
      else None)"
  by (simp add: parse_prompt_def parsed_text_def Let_def extract_options_def option_matches_def
      collect_options_filter)

text \<open>
  The witness for C6: the prompt returned for a menu with a repeated label holds both
  options.
\<close>

theorem parse_prompt_keeps_options_witness:
  "has_indicator ascii_db (parsed_text (ustr ''Choose:'' @ [10] @ ustr ''1. ab'' @ [10] @ ustr ''1. cd''))
   \<and> map option_of_match (filter long_enough
         (option_matches ascii_db (ustr ''Choose:'' @ [10] @ ustr ''1. ab'' @ [10] @ ustr ''1. cd'')))
       = [ \<lparr>number = ustr ''1'', option_text = ustr ''ab'', callback_data = ustr ''opt_1''\<rparr>,
           \<lparr>number = ustr ''1'', option_text = ustr ''cd'', callback_data = ustr ''opt_1''\<rparr> ]
   \<and> map_option options
        (parse_prompt ascii_db (ustr ''Choose:'' @ [10] @ ustr ''1. ab'' @ [10] @ ustr ''1. cd''))
       = Some [ \<lparr>number = ustr ''1'', option_text = ustr ''ab'', callback_data = ustr ''opt_1''\<rparr>,
                \<lparr>number = ustr ''1'', option_text = ustr ''cd'', callback_data = ustr ''opt_1''\<rparr> ]"
proof -
  let ?t = "ustr ''Choose:'' @ [10] @ ustr ''1. ab'' @ [10] @ ustr ''1. cd''"
  have i: "has_indicator ascii_db (parsed_text ?t)" by code_simp
  have o: "map option_of_match (filter long_enough (option_matches ascii_db ?t)) =
             [ \<lparr>number = ustr ''1'', option_text = ustr ''ab'', callback_data = ustr ''opt_1''\<rparr>,
               \<lparr>number = ustr ''1'', option_text = ustr ''cd'', callback_data = ustr ''opt_1''\<rparr> ]"
    by code_simp
  then have n: "filter long_enough (option_matches ascii_db ?t) \<noteq> []" by auto
  from parse_prompt_keeps_options [of ascii_db ?t] i o n show ?thesis by simp
qed

text \<open>
  The counterexample for C6 as stated: an indicator phrase is found, the two parsed options
  have the same label \<open>1\<close>, and \<open>parse_prompt\<close> returns a prompt with both.
\<close>

theorem duplicate_labels_kept:
  "has_indicator ascii_db (parsed_text (ustr ''Choose:'' @ [10] @ ustr ''1. ab'' @ [10] @ ustr ''1. cd''))
   \<and> labels (extract_options ascii_db
        (parsed_text (ustr ''Choose:'' @ [10] @ ustr ''1. ab'' @ [10] @ ustr ''1. cd'')))
       = [ustr ''1'', ustr ''1'']
   \<and> parsed_labels ascii_db (ustr ''Choose:'' @ [10] @ ustr ''1. ab'' @ [10] @ ustr ''1. cd'')
       = Some [ustr ''1'', ustr ''1'']"
  by code_simp

subsection \<open>The trust-folder prompt\<close>

lemma trust_parsed_text: "parsed_text test_trust_prompt = test_trust_prompt"
  by (simp only: parsed_text_def eval scan_first_eval test_trust_prompt_def ansi_escape_def
      esc_sequence_def cong: if_weak_cong option.case_cong_weak)

lemma trust_not_blank: "strip test_trust_prompt \<noteq> []"
  by (simp only: eval test_trust_prompt_def cong: if_weak_cong option.case_cong_weak)

lemma trust_numbered: "has_numbered_options ascii_db (strip test_trust_prompt)"
  by (simp only: has_numbered_options_def Let_def eval re_finditer_line_eval test_trust_prompt_def
      numbered_option_pattern_def
      cong: if_weak_cong option.case_cong_weak)

lemma trust_classified: "classify_response ascii_db test_trust_prompt = PROMPT"
  using trust_parsed_text trust_not_blank trust_numbered
  by (simp add: classify_response_def parsed_text_def)

lemma trust_indicator: "has_indicator ascii_db test_trust_prompt"
proof -
  have "contains (lower ascii_db (ustr ''Yes, proceed'')) (lower ascii_db test_trust_prompt)"
    by (simp only: eval test_trust_prompt_def cong: if_weak_cong option.case_cong_weak)
  then show ?thesis by (simp add: has_indicator_def prompt_indicators_def)
qed

lemma trust_options:
  "extract_options ascii_db test_trust_prompt =
     [ \<lparr>number = ustr ''1'', option_text = ustr ''Yes, proceed'', callback_data = ustr ''opt_1''\<rparr>,
       \<lparr>number = ustr ''2'', option_text = ustr ''No, exit'', callback_data = ustr ''opt_2''\<rparr> ]"
  by (simp only: extract_options_def collect_options.simps Let_def eval re_finditer_line_eval
      test_trust_prompt_def option_pattern_def
      cong: if_weak_cong option.case_cong_weak)

lemma trust_question:
  "extract_question ascii_db test_trust_prompt =
     join_nl
       [ ustr ''Do you trust the files in this folder?'',
         ustr ''/workspace/8afdab13-0fce-4365-ace8-226127b13f9a'',
         ustr ''Claude Code may read, write, or execute files contained in this directory.'',
         ustr ''This can pose security risks, so only use files from trusted sources.'',
         ustr ''Learn more ( https://docs.claude.com/s/claude-code-security )'' ]"
  by (simp only: extract_question_def question_lines_def clean_line_of_def is_question_line_def
      option_line_start_def is_box_char_def re_match_def generic_question_def Let_def
      eval scan_first_eval test_trust_prompt_def set_simps insert_iff empty_iff
      cong: if_weak_cong option.case_cong_weak)


text \<open>
  Claim C8.  On the trust-folder prompt \<open>classify_response\<close> returns \<open>PROMPT\<close> and
  \<open>extract_prompt_details\<close> returns a prompt with exactly the options \<open>("1", "Yes, proceed")\<close>
  and \<open>("2", "No, exit")\<close>, in this order, and a question that is not the generic one and
  holds \<open>trust\<close>.
\<close>

theorem trust_prompt_scenario:
  "classify_response ascii_db test_trust_prompt = PROMPT \<and>
   (\<exists>p. extract_prompt_details ascii_db test_trust_prompt = Some p \<and>
        label_text_pairs (options p) =
          [(ustr ''1'', ustr ''Yes, proceed''), (ustr ''2'', ustr ''No, exit'')] \<and>
        question p \<noteq> generic_question \<and>
        contains (ustr ''trust'') (question p))"
proof -
  have q1: "extract_question ascii_db test_trust_prompt \<noteq> generic_question"
    unfolding trust_question by code_simp
  have q2: "contains (ustr ''trust'') (extract_question ascii_db test_trust_prompt)"
    unfolding trust_question by code_simp
  have "parse_prompt ascii_db test_trust_prompt =
          Some \<lparr>question = extract_question ascii_db test_trust_prompt,
                 options = extract_options ascii_db test_trust_prompt,
                 raw_text = test_trust_prompt\<rparr>"
    using trust_parsed_text trust_indicator
    by (simp add: parse_prompt_def parsed_text_def trust_options)
  with q1 q2 trust_classified show ?thesis
    by (simp add: extract_prompt_details_def label_text_pairs_def trust_options)
qed

section \<open>Properties of the read/debounce loop\<close>

text \<open>
  Claim C2 (as amended).  After each read attempt the buffer is flushed as one unit exactly
  when it is not empty and either more than 500 ms have passed since the last successful
  read or it holds more than 4096 characters: the comparison with 0.5 s is strict, and the
  length is that of the decoded text, in characters.
\<close>

theorem poll_flush:
  "poll tk r =
     (let r' = absorb (chunk tk) (read_time tk) r
      in if buffer r' \<noteq> [] \<and>
            (0.5 < check_time tk - last_output_time r' \<or> 4096 < length (buffer r'))
         then r'\<lparr>output_queue := output_queue r' @ [buffer r'], buffer := []\<rparr>
         else r')"
  by (simp add: poll_def debounce_def flush_due_def flush_def Let_def)

text \<open>
  The witness for C2: without new data, a buffer of 200 characters whose last read was
  600 ms ago is flushed; with a last read 100 ms ago it is not, and a buffer of 4097
  characters is.
\<close>

theorem poll_flush_scenario:
  "output_queue
     (poll \<lparr>chunk = None, read_time = 10.6, check_time = 10.6, exit_status = None, remaining = None\<rparr>
        \<lparr>buffer = replicate 200 97, last_output_time = 10, output_queue = []\<rparr>)
     = [replicate 200 97]
   \<and> output_queue
     (poll \<lparr>chunk = None, read_time = 10.1, check_time = 10.1, exit_status = None, remaining = None\<rparr>
        \<lparr>buffer = replicate 200 97, last_output_time = 10, output_queue = []\<rparr>)
     = []
   \<and> output_queue
     (poll \<lparr>chunk = None, read_time = 10.1, check_time = 10.1, exit_status = None, remaining = None\<rparr>
        \<lparr>buffer = replicate 4097 97, last_output_time = 10, output_queue = []\<rparr>)
     = [replicate 4097 97]"
  by (simp add: poll_flush absorb_def)

text \<open>
  The counterexample for C2 as stated: a buffer of 200 characters whose last successful
  read was exactly 500 ms ago is not flushed at the tick.  Nor is, 100 ms after its last
  read, a buffer of 1366 box-drawing characters, which are 4098 bytes in UTF-8.
\<close>

theorem no_flush_at_500ms:
  "output_queue
     (poll \<lparr>chunk = None, read_time = 10.5, check_time = 10.5, exit_status = None, remaining = None\<rparr>
        \<lparr>buffer = replicate 200 97, last_output_time = 10, output_queue = []\<rparr>)
     = []
   \<and> utf8_size (replicate 1366 0x2502) = 4098
   \<and> output_queue
     (poll \<lparr>chunk = None, read_time = 10.1, check_time = 10.1, exit_status = None, remaining = None\<rparr>
        \<lparr>buffer = replicate 1366 0x2502, last_output_time = 10, output_queue = []\<rparr>)
     = []"
  by (simp add: poll_def debounce_def flush_due_def flush_def absorb_def utf8_size_def utf8_len_def
      sum_list_replicate)

lemma strip_empty_iff: "strip t = [] \<longleftrightarrow> \<not> has_nonspace t"
proof -
  let ?u = "dropWhile is_space t"
  have "strip t = [] \<longleftrightarrow> (\<forall>c\<in>set ?u. is_space c)"
    by (simp add: strip_def lstrip_def rstrip_def dropWhile_eq_Nil_conv)
  also have "\<dots> \<longleftrightarrow> ?u = []"
  proof
    assume all: "\<forall>c\<in>set ?u. is_space c"
    show "?u = []"
    proof (rule ccontr)
      assume ne: "?u \<noteq> []"
      then have "\<not> is_space (hd ?u)" by (rule hd_dropWhile)
      moreover from ne have "hd ?u \<in> set ?u" by simp
      ultimately show False using all by blast
    qed
  next
    assume e: "?u = []"
    show "\<forall>c\<in>set ?u. is_space c" unfolding e by simp
  qed
  also have "\<dots> \<longleftrightarrow> (\<forall>c\<in>set t. is_space c)"
    by (simp add: dropWhile_eq_Nil_conv)
  finally show ?thesis by (simp add: has_nonspace_def list_ex_iff)
qed

lemma has_nonspace_append: "has_nonspace (a @ b) \<longleftrightarrow> has_nonspace a \<or> has_nonspace b"
  by (simp add: has_nonspace_def)

lemma absorb_ok: "reader_ok r \<Longrightarrow> reader_ok (absorb data now r)"
  by (auto simp: absorb_def reader_ok_def Let_def strip_empty_iff has_nonspace_append
      split: option.splits)

lemma flush_ok: "reader_ok r \<Longrightarrow> buffer r \<noteq> [] \<Longrightarrow> reader_ok (flush r)"
  by (auto simp: flush_def reader_ok_def)

lemma debounce_ok: "reader_ok r \<Longrightarrow> reader_ok (debounce now r)"
  by (simp add: debounce_def Let_def flush_due_def flush_ok)

lemma poll_ok: "reader_ok r \<Longrightarrow> reader_ok (poll tk r)"
  by (simp add: poll_def absorb_ok debounce_ok)

lemma drain_ok: "reader_ok r \<Longrightarrow> reader_ok (drain data r)"
  by (simp add: drain_def Let_def absorb_ok flush_ok)

lemma read_output_loop_ok: "reader_ok r \<Longrightarrow> reader_ok (read_output_loop r tks)"
  by (induction tks arbitrary: r) (auto simp: Let_def poll_ok drain_ok split: option.splits)

lemma initial_reader_ok: "reader_ok (initial_reader now)"
  by (simp add: initial_reader_def reader_ok_def)

text \<open>
  Claim C10.  Every unit that the read/debounce loop has put on the queue holds a
  character that is not whitespace; a read whose sanitized text is empty or blank changes
  neither the buffer nor the time of the last successful read, so that the tick does what
  it does without any data.
\<close>

theorem output_units_not_blank:
  "list_all has_nonspace (output_queue (read_output_loop (initial_reader now) tks)) \<and>
   (strip (sanitize text) = [] \<longrightarrow>
      absorb (Some text) (read_time tk) r = r \<and>
      poll (tk\<lparr>chunk := Some text\<rparr>) r = poll (tk\<lparr>chunk := None\<rparr>) r)"
  using read_output_loop_ok [OF initial_reader_ok, of now tks]
  by (simp add: reader_ok_def poll_def absorb_def)


text \<open>
  The witness for C10: a colour reset alone is blank after sanitizing and changes nothing;
  the loop that reads \<open>hi\<close>, then the colour reset, then nothing, flushes the one unit
  \<open>hi\<close>.
\<close>

theorem output_units_not_blank_witness:
  "strip (sanitize ([27] @ ustr ''[0m'')) = []
   \<and> absorb (Some ([27] @ ustr ''[0m'')) 0.2 (initial_reader 0) = initial_reader 0
   \<and> output_queue (read_output_loop (initial_reader 0) example_ticks) = [ustr ''hi'']
   \<and> list_all has_nonspace (output_queue (read_output_loop (initial_reader 0) example_ticks))"
proof -
  have b: "strip (sanitize ([27] @ ustr ''[0m'')) = []" by code_simp
  have h: "sanitize (ustr ''hi'') = ustr ''hi''" "strip (ustr ''hi'') \<noteq> []"
    "ustr ''hi'' \<noteq> []"
    by code_simp+
  have q: "output_queue (read_output_loop (initial_reader 0) example_ticks) = [ustr ''hi'']"
    using b h
    by (simp add: example_ticks_def initial_reader_def poll_def absorb_def debounce_def
        flush_due_def flush_def drain_def Let_def)
  from output_units_not_blank [of 0 example_ticks "[27] @ ustr ''[0m''"
      "\<lparr>chunk = None, read_time = 0.2, check_time = 0.2, exit_status = None, remaining = None\<rparr>"
      "initial_reader 0"] b q
  show ?thesis by simp
qed

section \<open>Properties of the lifecycle\<close>








section \<open>Properties of the registry\<close>

text \<open>
  Claim C4 (as amended).  For an identifier that is not in the live map, and for one whose
  process is in the live map but not alive, \<open>send_message\<close> fails before anything is
  written or read, whatever the write and the output stream would have been: it yields no
  chunk.  The failure says that the session is not running; for a process in the live map
  it carries the exit code of that process (none when it was never started), for an
  identifier that is not in the live map it carries none.
\<close>

theorem send_message_not_running:
  assumes "sessions m sid = None \<or> (\<exists>p. sessions m sid = Some p \<and> \<not> is_alive p)"
  shows "\<exists>e. send_message write_ok stream now sid msg m = Inl e \<and> not_running e \<and>
             surfaced_exit_code e = (case sessions m sid of None \<Rightarrow> None | Some p \<Rightarrow> exit_code_of p)"
  using assms by (auto simp: send_message_def)

text \<open>
  The witness for C4: a session whose process has exited with code 1 fails with that code;
  an unknown session fails without one.
\<close>

theorem send_message_not_running_witness:
  "\<not> is_alive (example_process\<lparr>process := Some \<lparr>pid = 100, returncode = Some 1\<rparr>\<rparr>)
   \<and> send_message True [ustr ''out''] 2 ''s1'' (ustr ''hi'')
        (example_registry\<lparr>sessions := [''s1'' \<mapsto> example_process\<lparr>process := Some \<lparr>pid = 100, returncode = Some 1\<rparr>\<rparr>]\<rparr>)
       = Inl (ProcessCrashed (Some 1))
   \<and> send_message True [ustr ''out''] 2 ''s2'' (ustr ''hi'') example_registry
       = Inl (SessionNotRunning ''s2'')"
proof -
  let ?p = "example_process\<lparr>process := Some \<lparr>pid = 100, returncode = Some 1\<rparr>\<rparr>"
  let ?m = "example_registry\<lparr>sessions := [''s1'' \<mapsto> ?p]\<rparr>"
  have d: "\<not> is_alive ?p" by (simp add: is_alive_def)
  have h: "sessions ?m ''s1'' = None \<or> (\<exists>p. sessions ?m ''s1'' = Some p \<and> \<not> is_alive p)"
    using d by simp
  from send_message_not_running [OF h, of True "[ustr ''out'']" 2 "ustr ''hi''"] d
  show ?thesis by (simp add: send_message_def example_registry_def exit_code_of_def)
qed

text \<open>
  The counterexample for C4 as stated: \<open>terminate_session\<close> stops the example session with
  exit code 0 and drops its process from the live map; \<open>send_message\<close> to the session then
  fails with the failure that names the session and carries no exit code.
\<close>

theorem send_message_after_terminate:
  "map_option exit_code_of (snd (snd (terminate_session (Graceful 0) 1 ''s1'' example_registry)))
     = Some (Some 0)
   \<and> send_message True [ustr ''out''] 2 ''s1'' (ustr ''hi'')
        (fst (snd (terminate_session (Graceful 0) 1 ''s1'' example_registry)))
       = Inl (SessionNotRunning ''s1'')
   \<and> surfaced_exit_code (SessionNotRunning ''s1'') = None"
  by (simp add: terminate_session_def send_message_def example_registry_def example_process_def
      Let_def terminate_def stop_process_def cancel_reading_task_def close_master_def
      close_slave_def exit_code_of_def update_session_def)

text \<open>
  Claim C9.  \<open>terminate_session\<close> returns \<open>True\<close> for every identifier.  For an identifier
  with no live process and no row, no process is terminated, the live map and the rows are
  as before, and the identifier is removed from every user's active selection.
\<close>

theorem terminate_session_true:
  "fst (terminate_session env now sid m) = True \<and>
   (sessions m sid = None \<and> db m sid = None \<longrightarrow>
      terminate_session env now sid m =
        (True, m\<lparr>active_sessions := drop_active sid (active_sessions m)\<rparr>, None))"
  by (simp add: terminate_session_def update_session_def Let_def)


text \<open>
  The witness for C9: terminating a session that the example registry does not know
  returns \<open>True\<close> and leaves the registry as it was.
\<close>

theorem terminate_session_true_witness:
  "sessions example_registry ''s2'' = None \<and> db example_registry ''s2'' = None
   \<and> terminate_session Raised 3 ''s2'' example_registry = (True, example_registry, None)"
proof -
  have a: "sessions example_registry ''s2'' = None \<and> db example_registry ''s2'' = None"
    by (simp add: example_registry_def)
  have "drop_active ''s2'' (active_sessions example_registry) = active_sessions example_registry"
    by (auto simp: drop_active_def example_registry_def)
  with terminate_session_true [of Raised 3 "''s2''" example_registry] a
  show ?thesis by simp
qed

end
